theory Spec2Isabelle
  imports Main
begin

section \<open>Data model of the metadata file\<close>

text \<open>
  The metadata file \<^verbatim>\<open>.manual-meta.json\<close> holds, under \<^verbatim>\<open>screenshots\<close>, a rollup status and
  the ordered list of screenshot entries. An optional JSON field is an \<open>option\<close>. The status
  of an entry is a string: \<^verbatim>\<open>load\<close> parses the file and validates nothing, so the status is
  whatever the file holds, although the schema of the repository (SKILL.md) allows only
  \<^verbatim>\<open>pending\<close>, \<^verbatim>\<open>captured\<close>, \<^verbatim>\<open>failed\<close> and \<^verbatim>\<open>skipped\<close>. The session status is only ever
  written by the scripts, never read; it is the datatype of \<^verbatim>\<open>placeholder\<close>, \<^verbatim>\<open>capturing\<close>,
  \<^verbatim>\<open>captured\<close>, \<^verbatim>\<open>partial\<close>, \<^verbatim>\<open>failed\<close>.
\<close>

datatype session_status =
  SessPlaceholder | SessCapturing | SessCaptured | SessPartial | SessFailed

text \<open>
  One entry of \<^verbatim>\<open>screenshots.list\<close>. The fields \<^verbatim>\<open>action\<close>, \<^verbatim>\<open>element\<close>, \<^verbatim>\<open>viewport\<close> and
  \<^verbatim>\<open>wait_after\<close> of the schema are never read or written by the scripts modelled below and
  are left out. The field \<^verbatim>\<open>id\<close> is named \<open>id_s\<close>.
\<close>

record screenshot =
  id_s :: string
  description :: string
  page :: string
  auth_required :: "bool option"
  status :: "string option"
  file_path :: "string option"
  captured_at :: "string option"
  error :: "string option"

text \<open>The object stored by \<^verbatim>\<open>finishCapture\<close> under \<^verbatim>\<open>screenshots.summary\<close>, and the object
  returned by \<^verbatim>\<open>getProgress\<close>, which has the same four counts and \<^verbatim>\<open>pending\<close>.\<close>

record summary =
  total_s :: nat
  captured :: nat
  failed :: nat
  skipped :: nat

record progress = summary +
  pending :: nat

record screenshots =
  status_ss :: "session_status option"
  output_dir :: "string option"
  capture_started_at :: "string option"
  captured_at_ss :: "string option"
  summary_ss :: "summary option"
  list_ss :: "screenshot list"

record metadata =
  updated_at :: "string option"
  screenshots :: screenshots

text \<open>The fields of a \<^verbatim>\<open>ScreenshotManager\<close> object once \<^verbatim>\<open>load\<close> has parsed the file. Before
  \<^verbatim>\<open>load\<close> the field \<^verbatim>\<open>metadata\<close> is \<^verbatim>\<open>null\<close> and no method below can be used; the model starts
  from a loaded manager whose metadata has the shape of the schema.\<close>

record manager =
  metadataPath :: string
  metadata :: metadata
  outputDir :: string

text \<open>A thrown \<^verbatim>\<open>Error\<close> carries its message. A method either returns or throws; in both
  cases the object is left in some state, which is the second component of a result.\<close>

datatype js_error = Error string

datatype completion = Returned | Threw js_error

section \<open>JavaScript helpers\<close>

text \<open>Truthiness of an optional string: \<^verbatim>\<open>undefined\<close>, \<^verbatim>\<open>null\<close> and the empty string are falsy.\<close>

fun truthy :: "string option \<Rightarrow> bool" where
  "truthy None = False"
| "truthy (Some s) = (s \<noteq> [])"

text \<open>\<^verbatim>\<open>a || b\<close> on an optional string \<open>a\<close> and a string \<open>b\<close>.\<close>

fun or_else :: "string option \<Rightarrow> string \<Rightarrow> string" where
  "or_else None d = d"
| "or_else (Some s) d = (if s \<noteq> [] then s else d)"

text \<open>\<^verbatim>\<open>list.find(p)\<close> returns a reference to the first element that satisfies \<open>p\<close>; the
  assignments then made through that reference change this element in place. \<open>update_found\<close>
  is the list after these assignments, \<open>f\<close> being their effect on the element.\<close>

fun update_found :: "('a \<Rightarrow> bool) \<Rightarrow> ('a \<Rightarrow> 'a) \<Rightarrow> 'a list \<Rightarrow> 'a list" where
  "update_found p f [] = []"
| "update_found p f (x # xs) = (if p x then f x # xs else x # update_found p f xs)"

text \<open>Decimal rendering of a count inside a template literal.\<close>

definition digit :: "nat \<Rightarrow> char" where
  "digit d = ''0123456789'' ! d"

fun show_nat :: "nat \<Rightarrow> string" where
  "show_nat n = (if n < 10 then [digit n] else show_nat (n div 10) @ [digit (n mod 10)])"

declare show_nat.simps [simp del]

text \<open>\<^verbatim>\<open>lines.join('\n')\<close>.\<close>

fun join_lines :: "string list \<Rightarrow> string" where
  "join_lines [] = []"
| "join_lines [l] = l"
| "join_lines (l # ls) = l @ [CHR 0x0A] @ join_lines ls"

section \<open>ScreenshotManager (capture_screenshots.js)\<close>

text \<open>\<^verbatim>\<open>load\<close>, given the parsed content of the file (a missing file throws before anything is
  assigned): the output directory is \<^verbatim>\<open>metadata.screenshots?.output_dir || 'screenshots'\<close>.\<close>

definition load :: "string \<Rightarrow> metadata \<Rightarrow> manager" where
  "load path md =
     \<lparr>metadataPath = path, metadata = md,
      outputDir = or_else (output_dir (screenshots md)) ''screenshots''\<rparr>"

text \<open>\<^verbatim>\<open>save\<close> stamps \<^verbatim>\<open>updated_at\<close> with the clock reading \<open>now\<close> and writes the metadata, as
  it then is, to the file. The file system is outside the model: what is written is the
  \<open>metadata\<close> field of the result.\<close>

definition save :: "string \<Rightarrow> manager \<Rightarrow> manager" where
  "save now m = m\<lparr>metadata := (metadata m)\<lparr>updated_at := Some now\<rparr>\<rparr>"

definition the_list :: "manager \<Rightarrow> screenshot list" where
  "the_list m = list_ss (screenshots (metadata m))"

definition set_list :: "screenshot list \<Rightarrow> manager \<Rightarrow> manager" where
  "set_list l m =
     m\<lparr>metadata := (metadata m)\<lparr>screenshots := (screenshots (metadata m))\<lparr>list_ss := l\<rparr>\<rparr>\<rparr>"

text \<open>\<^verbatim>\<open>!s.status || s.status === 'pending'\<close>: an absent and an empty status are falsy.\<close>

definition is_pending :: "screenshot \<Rightarrow> bool" where
  "is_pending s = (status s = None \<or> status s = Some [] \<or> status s = Some ''pending'')"

definition getPendingScreenshots :: "manager \<Rightarrow> screenshot list" where
  "getPendingScreenshots m = filter is_pending (the_list m)"

definition startCapture :: "string \<Rightarrow> string \<Rightarrow> manager \<Rightarrow> manager" where
  "startCapture t_start t_save m =
     save t_save
       (m\<lparr>metadata := (metadata m)\<lparr>screenshots := (screenshots (metadata m))
           \<lparr>status_ss := Some SessCapturing, capture_started_at := Some t_start\<rparr>\<rparr>\<rparr>)"

definition not_found :: "string \<Rightarrow> js_error" where
  "not_found screenshotId = Error (''Screenshot not found: '' @ screenshotId)"

text \<open>\<^verbatim>\<open>markCaptured(screenshotId, filePath = null)\<close>. The clock is read twice: \<open>t_cap\<close> for
  \<^verbatim>\<open>captured_at\<close> and \<open>t_save\<close> inside \<^verbatim>\<open>save\<close>.\<close>

definition markCaptured ::
  "string \<Rightarrow> string option \<Rightarrow> string \<Rightarrow> string \<Rightarrow> manager \<Rightarrow> completion \<times> manager" where
  "markCaptured screenshotId filePath t_cap t_save m =
     (case find (\<lambda>s. id_s s = screenshotId) (the_list m) of
        None \<Rightarrow> (Threw (not_found screenshotId), m)
      | Some _ \<Rightarrow>
          (Returned,
           save t_save
             (set_list
                (update_found (\<lambda>s. id_s s = screenshotId)
                   (\<lambda>s. s\<lparr>status := Some ''captured'',
                           captured_at := Some t_cap,
                           file_path :=
                             Some (or_else filePath (outputDir m @ ''/'' @ screenshotId @ ''.png'')),
                           error := None\<rparr>)
                   (the_list m))
                m)))"

text \<open>\<^verbatim>\<open>markFailed(screenshotId, errorMessage)\<close> and \<^verbatim>\<open>markSkipped(screenshotId, reason)\<close>
  assign the message as it is passed, without a default or a check: after a call without the
  second argument (\<open>None\<close>) the entry has no error. (The command line passes
  \<^verbatim>\<open>args[3] || 'Unknown error'\<close>.) Neither method reads the clock but through \<^verbatim>\<open>save\<close>, and
  neither touches \<^verbatim>\<open>file_path\<close> or \<^verbatim>\<open>captured_at\<close>.\<close>

definition markFailed ::
  "string \<Rightarrow> string option \<Rightarrow> string \<Rightarrow> manager \<Rightarrow> completion \<times> manager" where
  "markFailed screenshotId errorMessage t_save m =
     (case find (\<lambda>s. id_s s = screenshotId) (the_list m) of
        None \<Rightarrow> (Threw (not_found screenshotId), m)
      | Some _ \<Rightarrow>
          (Returned,
           save t_save
             (set_list
                (update_found (\<lambda>s. id_s s = screenshotId)
                   (\<lambda>s. s\<lparr>status := Some ''failed'', error := errorMessage\<rparr>)
                   (the_list m))
                m)))"

definition markSkipped ::
  "string \<Rightarrow> string option \<Rightarrow> string \<Rightarrow> manager \<Rightarrow> completion \<times> manager" where
  "markSkipped screenshotId reason t_save m =
     (case find (\<lambda>s. id_s s = screenshotId) (the_list m) of
        None \<Rightarrow> (Threw (not_found screenshotId), m)
      | Some _ \<Rightarrow>
          (Returned,
           save t_save
             (set_list
                (update_found (\<lambda>s. id_s s = screenshotId)
                   (\<lambda>s. s\<lparr>status := Some ''skipped'', error := reason\<rparr>)
                   (the_list m))
                m)))"

text \<open>\<^verbatim>\<open>list.filter(s => s.status === c).length\<close>.\<close>

definition count_status :: "string \<Rightarrow> screenshot list \<Rightarrow> nat" where
  "count_status c l = length (filter (\<lambda>s. status s = Some c) l)"

text \<open>The rollup of \<^verbatim>\<open>finishCapture\<close>: the first branch that matches decides.\<close>

definition rollup :: "nat \<Rightarrow> nat \<Rightarrow> session_status" where
  "rollup n_captured n_total =
     (if n_captured = n_total then SessCaptured
      else if n_captured > 0 then SessPartial
      else SessFailed)"

definition finishCapture :: "string \<Rightarrow> string \<Rightarrow> manager \<Rightarrow> manager" where
  "finishCapture t_cap t_save m =
     (let l = the_list m;
          n_captured = count_status ''captured'' l;
          n_failed = count_status ''failed'' l;
          n_skipped = count_status ''skipped'' l;
          n_total = length l
      in save t_save
           (m\<lparr>metadata := (metadata m)\<lparr>screenshots := (screenshots (metadata m))
               \<lparr>status_ss := Some (rollup n_captured n_total),
                captured_at_ss := Some t_cap,
                summary_ss :=
                  Some \<lparr>total_s = n_total, captured = n_captured,
                        failed = n_failed, skipped = n_skipped\<rparr>\<rparr>\<rparr>\<rparr>))"

definition getProgress :: "manager \<Rightarrow> progress" where
  "getProgress m =
     (let l = the_list m
      in \<lparr>total_s = length l,
          captured = count_status ''captured'' l,
          failed = count_status ''failed'' l,
          skipped = count_status ''skipped'' l,
          pending = length (filter is_pending l)\<rparr>)"

text \<open>The icon table, indexed by \<^verbatim>\<open>screenshot.status || 'pending'\<close>. For a key that is not in
  the table the lookup goes on in \<^verbatim>\<open>Object.prototype\<close>, and the template literal renders what it
  finds there. That rendering is the parameter \<open>inherited\<close>: it is \<^verbatim>\<open>undefined\<close> for every key
  but the few names of members of \<^verbatim>\<open>Object.prototype\<close>.\<close>

definition statusIcon :: "(string \<Rightarrow> string) \<Rightarrow> string \<Rightarrow> string" where
  "statusIcon inherited st =
     (case map_of [(''captured'', ''[OK]''), (''failed'', ''[FAIL]''),
                   (''skipped'', ''[SKIP]''), (''pending'', ''[...]'')] st of
        Some icon \<Rightarrow> icon
      | None \<Rightarrow> inherited st)"

definition undefined_icon :: "string \<Rightarrow> string" where
  "undefined_icon st = ''undefined''"

text \<open>The lines pushed for one entry by the loop of \<^verbatim>\<open>generateReport\<close>.\<close>

definition report_block :: "(string \<Rightarrow> string) \<Rightarrow> screenshot \<Rightarrow> string list" where
  "report_block inherited s =
     (let st = or_else (status s) ''pending''
      in [''### '' @ statusIcon inherited st @ '' '' @ id_s s,
          ''- Description: '' @ description s,
          ''- Page: '' @ page s,
          ''- Status: '' @ st]
         @ (if truthy (file_path s) then [''- File: '' @ the (file_path s)] else [])
         @ (if truthy (error s) then [''- Error: '' @ the (error s)] else [])
         @ [''''])"

text \<open>The array \<^verbatim>\<open>lines\<close> of \<^verbatim>\<open>generateReport\<close> when the loop is over; \<open>now\<close> is the clock
  reading of \<^verbatim>\<open>new Date().toISOString()\<close>.\<close>

definition report_lines :: "(string \<Rightarrow> string) \<Rightarrow> string \<Rightarrow> manager \<Rightarrow> string list" where
  "report_lines inherited now m =
     (let p = getProgress m
      in [''# Screenshot Capture Report'',
          '''',
          ''Generated: '' @ now,
          ''Metadata: '' @ metadataPath m,
          '''',
          ''## Summary'',
          '''',
          ''- Total: '' @ show_nat (total_s p),
          ''- Captured: '' @ show_nat (captured p),
          ''- Failed: '' @ show_nat (failed p),
          ''- Skipped: '' @ show_nat (skipped p),
          ''- Pending: '' @ show_nat (pending p),
          '''',
          ''## Details'',
          '''']
         @ concat (map (report_block inherited) (the_list m)))"

definition generateReport :: "(string \<Rightarrow> string) \<Rightarrow> string \<Rightarrow> manager \<Rightarrow> string" where
  "generateReport inherited now m = join_lines (report_lines inherited now m)"

section \<open>ScreenshotCapture (puppeteer_capture.js)\<close>

text \<open>The constant \<^verbatim>\<open>SCREENSHOTS\<close>. Of each definition \<^verbatim>\<open>updateMetadata\<close> uses nothing, and of
  the array only its length; the identifiers, targets and \<^verbatim>\<open>auth\<close> flags are kept.\<close>

record screenshot_def =
  id_d :: string
  url :: string
  auth :: bool

definition SCREENSHOTS :: "screenshot_def list" where
  "SCREENSHOTS =
     [\<lparr>id_d = ''screenshot_01_homepage'', url = ''https://cs.gbase.ai/'', auth = False\<rparr>,
      \<lparr>id_d = ''screenshot_02_top_navigation'', url = ''https://cs.gbase.ai/'', auth = False\<rparr>,
      \<lparr>id_d = ''screenshot_03_login_button'', url = ''https://cs.gbase.ai/'', auth = False\<rparr>,
      \<lparr>id_d = ''screenshot_04_login_page'', url = ''https://cs.gbase.ai/'', auth = False\<rparr>,
      \<lparr>id_d = ''screenshot_05_admin_dashboard'', url = ''https://admin.gbase.ai/bots'', auth = True\<rparr>,
      \<lparr>id_d = ''screenshot_06_create_bot_card'', url = ''https://admin.gbase.ai/bots'', auth = True\<rparr>,
      \<lparr>id_d = ''screenshot_07_create_bot_modal'', url = ''https://admin.gbase.ai/bots'', auth = True\<rparr>]"

text \<open>One element of \<^verbatim>\<open>this.results\<close>, as \<^verbatim>\<open>capture\<close> pushes it: the status is \<^verbatim>\<open>captured\<close>
  (with \<^verbatim>\<open>path\<close>), \<^verbatim>\<open>failed\<close> (with \<^verbatim>\<open>error\<close>) or \<^verbatim>\<open>skipped\<close> (with \<^verbatim>\<open>reason\<close>).\<close>

record result =
  id_r :: string
  status_r :: string
  path_r :: "string option"
  error_r :: "string option"
  reason_r :: "string option"

text \<open>The body of the loop of \<^verbatim>\<open>updateMetadata\<close> for one result. The clock is read once for
  every result whose entry is found; \<open>clock k\<close> is the \<open>k\<close>-th reading of one call, and the
  number of readings so far is threaded with the list.\<close>

definition apply_result ::
  "(nat \<Rightarrow> string) \<Rightarrow> result \<Rightarrow> nat \<times> screenshot list \<Rightarrow> nat \<times> screenshot list" where
  "apply_result clock r = (\<lambda>(k, l).
     (case find (\<lambda>s. id_s s = id_r r) l of
        None \<Rightarrow> (k, l)
      | Some _ \<Rightarrow>
          (Suc k,
           update_found (\<lambda>s. id_s s = id_r r)
             (\<lambda>s. let s1 = s\<lparr>status := Some (status_r r)\<rparr>;
                      s2 = (if truthy (path_r r) then s1\<lparr>file_path := path_r r\<rparr> else s1);
                      s3 = (if truthy (error_r r) then s2\<lparr>error := error_r r\<rparr> else s2)
                  in s3\<lparr>captured_at := Some (clock k)\<rparr>)
             l)))"

text \<open>The session status written by \<^verbatim>\<open>updateMetadata\<close>.\<close>

definition batch_rollup :: "result list \<Rightarrow> session_status" where
  "batch_rollup results =
     (let n_captured = length (filter (\<lambda>r. status_r r = ''captured'') results)
      in if n_captured = length SCREENSHOTS then SessCaptured else SessPartial)"

text \<open>\<^verbatim>\<open>updateMetadata\<close> on the content of the metadata file: \<open>None\<close> is a missing file, which
  is left missing. The result is the content written back.\<close>

definition updateMetadata ::
  "(nat \<Rightarrow> string) \<Rightarrow> result list \<Rightarrow> metadata option \<Rightarrow> metadata option" where
  "updateMetadata clock results file =
     (case file of
        None \<Rightarrow> None
      | Some md \<Rightarrow>
          (case fold (apply_result clock) results (0, list_ss (screenshots md)) of
             (k, l) \<Rightarrow>
               Some (md\<lparr>screenshots := (screenshots md)
                          \<lparr>list_ss := l,
                           status_ss := Some (batch_rollup results),
                           captured_at_ss := Some (clock k)\<rparr>,
                        updated_at := Some (clock (Suc k))\<rparr>)))"

section \<open>Sequences of status updates\<close>

text \<open>A caller marks entries one after the other. A call that throws leaves the manager as
  it was, and the caller may go on with it.\<close>

datatype mark_call =
  MarkCaptured string "string option" string string
| MarkFailed string "string option" string
| MarkSkipped string "string option" string

fun mark :: "mark_call \<Rightarrow> manager \<Rightarrow> completion \<times> manager" where
  "mark (MarkCaptured i p t_cap t_save) m = markCaptured i p t_cap t_save m"
| "mark (MarkFailed i e t_save) m = markFailed i e t_save m"
| "mark (MarkSkipped i r t_save) m = markSkipped i r t_save m"

fun mark_all :: "mark_call list \<Rightarrow> manager \<Rightarrow> manager" where
  "mark_all [] m = m"
| "mark_all (c # cs) m = mark_all cs (snd (mark c m))"

text \<open>A fresh entry as the manual generator writes it: no status, no file, no error.\<close>

definition fresh :: "string \<Rightarrow> string \<Rightarrow> string \<Rightarrow> screenshot" where
  "fresh i d p =
     \<lparr>id_s = i, description = d, page = p, auth_required = None, status = None,
      file_path = None, captured_at = None, error = None\<rparr>"

definition session_of :: "screenshot list \<Rightarrow> metadata" where
  "session_of l =
     \<lparr>updated_at = None,
      screenshots = \<lparr>status_ss = Some SessPlaceholder, output_dir = Some ''screenshots'',
                     capture_started_at = None, captured_at_ss = None, summary_ss = None,
                     list_ss = l\<rparr>\<rparr>"

text \<open>The entry that \<^verbatim>\<open>find\<close> returns for an identifier.\<close>

definition task :: "string \<Rightarrow> manager \<Rightarrow> screenshot option" where
  "task i m = find (\<lambda>s. id_s s = i) (the_list m)"

text \<open>Concrete sessions, used to evaluate the operations.\<close>

definition two_tasks :: manager where
  "two_tasks = load ''.manual-meta.json''
     (session_of [fresh ''a'' ''Home'' ''https://example.com/'',
                  fresh ''b'' ''Login'' ''https://example.com/login''])"

definition one_captured :: manager where
  "one_captured = snd (markCaptured ''b'' None ''2025-01-12T02:00:00.000Z''
      ''2025-01-12T02:00:00.001Z'' two_tasks)"

definition captured_then_failed :: manager where
  "captured_then_failed =
     mark_all [MarkCaptured ''a'' None ''2025-01-12T02:00:00.000Z'' ''2025-01-12T02:00:00.001Z'',
               MarkFailed ''a'' (Some ''Unknown error'') ''2025-01-12T02:05:00.000Z'',
               MarkSkipped ''b'' None ''2025-01-12T02:06:00.000Z''] two_tasks"

text \<open>A metadata file in which one entry has a status outside the schema and one an empty
  status.\<close>

definition off_schema :: manager where
  "off_schema = load ''.manual-meta.json''
     (session_of [(fresh ''a'' ''Home'' ''https://example.com/'')\<lparr>status := Some ''captured''\<rparr>,
                  (fresh ''b'' ''Login'' ''https://example.com/login'')\<lparr>status := Some ''capturing''\<rparr>,
                  (fresh ''c'' ''Help'' ''https://example.com/help'')\<lparr>status := Some ''''\<rparr>])"

text \<open>The status of an entry is absent or one of the four values of the schema.\<close>

definition schema_status :: "screenshot \<Rightarrow> bool" where
  "schema_status s =
     (status s = None \<or> status s = Some ''pending'' \<or> status s = Some ''captured'' \<or>
      status s = Some ''failed'' \<or> status s = Some ''skipped'')"


text \<open>A batch run in which every capture fails, and a metadata file that lists the seven
  screenshots of \<^verbatim>\<open>SCREENSHOTS\<close>.\<close>

definition all_failed :: "result list" where
  "all_failed =
     map (\<lambda>d. \<lparr>id_r = id_d d, status_r = ''failed'', path_r = None,
                error_r = Some ''Navigation timeout of 30000 ms exceeded'', reason_r = None\<rparr>)
       SCREENSHOTS"

definition defined_session :: metadata where
  "defined_session = session_of (map (\<lambda>d. fresh (id_d d) (id_d d) (url d)) SCREENSHOTS)"

text \<open>A batch of one failed result, for the entry \<open>a\<close>.\<close>

definition one_failed :: "result list" where
  "one_failed =
     [\<lparr>id_r = ''a'', status_r = ''failed'', path_r = None,
       error_r = Some ''Unknown error'', reason_r = None\<rparr>]"

section \<open>Facts about the helpers\<close>

lemma find_update_found:
  "find p l = Some s \<Longrightarrow> p (f s) \<Longrightarrow> find p (update_found p f l) = Some (f s)"
  by (induction l) (auto split: if_splits)

lemma update_found_split:
  "\<forall>x\<in>set pre. \<not> p x \<Longrightarrow> p s \<Longrightarrow> update_found p f (pre @ s # post) = pre @ f s # post"
  by (induction pre) auto

lemma update_found_idem:
  "(\<And>x. p x \<Longrightarrow> p (f x)) \<Longrightarrow> (\<And>x. p x \<Longrightarrow> f (f x) = f x) \<Longrightarrow>
   update_found p f (update_found p f l) = update_found p f l"
  by (induction l) auto


lemma find_id_None: "(find (\<lambda>s. id_s s = i) l = None) = (i \<notin> id_s ` set l)"
  by (auto simp: find_None_iff)

lemma join_lines_Cons: "ls \<noteq> [] \<Longrightarrow> join_lines (l # ls) = l @ [CHR 0x0A] @ join_lines ls"
  by (cases ls) simp_all

lemma the_list_save [simp]: "the_list (save t m) = the_list m"
  by (simp add: the_list_def save_def)

lemma the_list_set_list [simp]: "the_list (set_list l m) = l"
  by (simp add: the_list_def set_list_def)

lemma outputDir_save [simp]: "outputDir (save t m) = outputDir m"
  by (simp add: save_def)

lemma outputDir_set_list [simp]: "outputDir (set_list l m) = outputDir m"
  by (simp add: set_list_def)

lemma updated_at_save [simp]: "updated_at (metadata (save t m)) = Some t"
  by (simp add: save_def)

lemma set_list_save: "set_list l (save t m) = save t (set_list l m)"
  by (simp add: set_list_def save_def)

lemma set_list_set_list [simp]: "set_list l (set_list l' m) = set_list l m"
  by (simp add: set_list_def)

lemma save_save [simp]: "save t (save t' m) = save t m"
  by (simp add: save_def)

lemma the_list_frame:
  "the_list (m\<lparr>metadata := (metadata m)
      \<lparr>updated_at := u, screenshots := (screenshots (metadata m))\<lparr>list_ss := l\<rparr>\<rparr>\<rparr>) = l"
  by (simp add: the_list_def)

lemma task_id: "task i m = Some s \<Longrightarrow> id_s s = i"
  by (auto simp: task_def find_Some_iff)

lemma task_after_update:
  "task i m = Some s \<Longrightarrow> id_s (f s) = i \<Longrightarrow>
   task i (save t (set_list (update_found (\<lambda>s. id_s s = i) f (the_list m)) m)) = Some (f s)"
  by (simp add: task_def find_update_found)

lemma markCaptured_found:
  "task i m = Some s \<Longrightarrow>
   markCaptured i p t_cap t_save m =
     (Returned,
      save t_save (set_list (update_found (\<lambda>s. id_s s = i)
         (\<lambda>s. s\<lparr>status := Some ''captured'', captured_at := Some t_cap,
                 file_path := Some (or_else p (outputDir m @ ''/'' @ i @ ''.png'')),
                 error := None\<rparr>) (the_list m)) m))"
  by (simp add: markCaptured_def task_def)

lemma markFailed_found:
  "task i m = Some s \<Longrightarrow>
   markFailed i e t_save m =
     (Returned,
      save t_save (set_list (update_found (\<lambda>s. id_s s = i)
         (\<lambda>s. s\<lparr>status := Some ''failed'', error := e\<rparr>) (the_list m)) m))"
  by (simp add: markFailed_def task_def)

lemma markSkipped_found:
  "task i m = Some s \<Longrightarrow>
   markSkipped i r t_save m =
     (Returned,
      save t_save (set_list (update_found (\<lambda>s. id_s s = i)
         (\<lambda>s. s\<lparr>status := Some ''skipped'', error := r\<rparr>) (the_list m)) m))"
  by (simp add: markSkipped_def task_def)

subsection \<open>The concrete sessions\<close>

lemma the_list_two_tasks:
  "the_list two_tasks =
     [fresh ''a'' ''Home'' ''https://example.com/'', fresh ''b'' ''Login'' ''https://example.com/login'']"
  by (simp add: two_tasks_def the_list_def load_def session_of_def)

lemma outputDir_two_tasks: "outputDir two_tasks = ''screenshots''"
  by (simp add: two_tasks_def load_def session_of_def)

lemma task_two_tasks_a:
  "task ''a'' two_tasks = Some (fresh ''a'' ''Home'' ''https://example.com/'')"
  by (simp add: task_def the_list_two_tasks fresh_def)

lemma the_list_one_captured:
  "the_list one_captured =
     [fresh ''a'' ''Home'' ''https://example.com/''] @
     (fresh ''b'' ''Login'' ''https://example.com/login'')
       \<lparr>status := Some ''captured'', captured_at := Some ''2025-01-12T02:00:00.000Z'',
        file_path := Some ''screenshots/b.png'', error := None\<rparr> # []"
  by (simp add: one_captured_def markCaptured_def the_list_two_tasks fresh_def outputDir_two_tasks)

lemma the_list_captured_then_failed:
  "the_list captured_then_failed =
     [(fresh ''a'' ''Home'' ''https://example.com/'')
        \<lparr>status := Some ''failed'', captured_at := Some ''2025-01-12T02:00:00.000Z'',
         file_path := Some ''screenshots/a.png'', error := Some ''Unknown error''\<rparr>,
      (fresh ''b'' ''Login'' ''https://example.com/login'')\<lparr>status := Some ''skipped''\<rparr>]"
  by (simp add: captured_then_failed_def markCaptured_def markFailed_def markSkipped_def
      the_list_two_tasks fresh_def outputDir_two_tasks)

lemma the_list_off_schema:
  "the_list off_schema =
     [(fresh ''a'' ''Home'' ''https://example.com/'')\<lparr>status := Some ''captured''\<rparr>,
      (fresh ''b'' ''Login'' ''https://example.com/login'')\<lparr>status := Some ''capturing''\<rparr>,
      (fresh ''c'' ''Help'' ''https://example.com/help'')\<lparr>status := Some ''''\<rparr>]"
  by (simp add: off_schema_def the_list_def load_def session_of_def)

lemma length_SCREENSHOTS: "length SCREENSHOTS = 7"
  by (simp add: SCREENSHOTS_def)

section \<open>Session rollup at finalisation\<close>

text \<open>
  C1, as the code has it. After \<^verbatim>\<open>finishCapture\<close> the session status is \<^verbatim>\<open>captured\<close> exactly
  when the number of captured entries equals the number of entries, \<^verbatim>\<open>failed\<close> exactly when
  no entry is captured and the list is not empty, and \<^verbatim>\<open>partial\<close> exactly when some but not
  all entries are captured. The stored summary holds the number of entries and the numbers
  of captured, failed and skipped entries; the entries themselves are not changed, the
  capture time and the update time are the two clock readings.
\<close>

theorem finish_status:
  "(status_ss (screenshots (metadata (finishCapture t_cap t_save m))) = Some SessCaptured) =
     (count_status ''captured'' (the_list m) = length (the_list m)) \<and>
   (status_ss (screenshots (metadata (finishCapture t_cap t_save m))) = Some SessFailed) =
     (count_status ''captured'' (the_list m) = 0 \<and> length (the_list m) \<noteq> 0) \<and>
   (status_ss (screenshots (metadata (finishCapture t_cap t_save m))) = Some SessPartial) =
     (count_status ''captured'' (the_list m) \<noteq> 0 \<and>
      count_status ''captured'' (the_list m) \<noteq> length (the_list m)) \<and>
   summary_ss (screenshots (metadata (finishCapture t_cap t_save m))) =
     Some \<lparr>total_s = length (the_list m),
           captured = length (filter (\<lambda>s. status s = Some ''captured'') (the_list m)),
           failed = length (filter (\<lambda>s. status s = Some ''failed'') (the_list m)),
           skipped = length (filter (\<lambda>s. status s = Some ''skipped'') (the_list m))\<rparr> \<and>
   the_list (finishCapture t_cap t_save m) = the_list m \<and>
   captured_at_ss (screenshots (metadata (finishCapture t_cap t_save m))) = Some t_cap \<and>
   updated_at (metadata (finishCapture t_cap t_save m)) = Some t_save"
  by (auto simp: finishCapture_def Let_def save_def rollup_def the_list_def count_status_def)

text \<open>
  C1, as stated, fails on the session without entries: nothing is captured there, and the
  status after \<^verbatim>\<open>finishCapture\<close> is not \<^verbatim>\<open>failed\<close> (it is \<^verbatim>\<open>captured\<close>, the first branch).
\<close>

theorem finish_status_empty_cex:
  "count_status ''captured'' (the_list (load ''.manual-meta.json'' (session_of []))) = 0 \<and>
   status_ss (screenshots (metadata
      (finishCapture ''2025-01-12T02:00:00.000Z'' ''2025-01-12T02:00:00.001Z''
         (load ''.manual-meta.json'' (session_of []))))) \<noteq> Some SessFailed"
  by (simp add: finishCapture_def Let_def save_def rollup_def the_list_def count_status_def
      load_def session_of_def)

text \<open>
  C9. On a session whose list of entries is empty, \<^verbatim>\<open>finishCapture\<close> sets the session status
  to \<^verbatim>\<open>captured\<close> and stores the summary with all four counts zero.
\<close>

theorem finish_empty:
  "the_list m = [] \<Longrightarrow>
   status_ss (screenshots (metadata (finishCapture t_cap t_save m))) = Some SessCaptured \<and>
   summary_ss (screenshots (metadata (finishCapture t_cap t_save m))) =
     Some \<lparr>total_s = 0, captured = 0, failed = 0, skipped = 0\<rparr>"
  by (simp add: finishCapture_def Let_def save_def rollup_def count_status_def)

text \<open>C9 at the session loaded from a metadata file with an empty list.\<close>

theorem finish_empty_witness:
  "the_list (load ''.manual-meta.json'' (session_of [])) = [] \<and>
   status_ss (screenshots (metadata
      (finishCapture ''2025-01-12T02:00:00.000Z'' ''2025-01-12T02:00:00.001Z''
         (load ''.manual-meta.json'' (session_of []))))) = Some SessCaptured \<and>
   summary_ss (screenshots (metadata
      (finishCapture ''2025-01-12T02:00:00.000Z'' ''2025-01-12T02:00:00.001Z''
         (load ''.manual-meta.json'' (session_of []))))) =
     Some \<lparr>total_s = 0, captured = 0, failed = 0, skipped = 0\<rparr>"
proof -
  have e: "the_list (load ''.manual-meta.json'' (session_of [])) = []"
    by (simp add: the_list_def load_def session_of_def)
  show ?thesis
    using e finish_empty [OF e] by simp
qed

section \<open>Progress counts\<close>

lemma count_total:
  "list_all schema_status l \<Longrightarrow>
   length l = count_status ''captured'' l + count_status ''failed'' l + count_status ''skipped'' l
     + length (filter is_pending l)"
proof (induction l)
  case Nil
  show ?case by (simp add: count_status_def)
next
  case (Cons a l)
  from Cons.prems have a: "schema_status a" and l: "list_all schema_status l" by simp_all
  from a consider "status a = None" | "status a = Some ''pending''" | "status a = Some ''captured''"
    | "status a = Some ''failed''" | "status a = Some ''skipped''"
    unfolding schema_status_def by auto
  then show ?case
    using Cons.IH [OF l] by cases (simp_all add: count_status_def is_pending_def)
qed

text \<open>
  C6, as the code has it. In a session in which the status of every entry is absent or one of
  \<^verbatim>\<open>pending\<close>, \<^verbatim>\<open>captured\<close>, \<^verbatim>\<open>failed\<close>, \<^verbatim>\<open>skipped\<close>, the counts of \<^verbatim>\<open>getProgress\<close> add up: the
  total is the sum of the captured, failed, skipped and pending counts. The total is the
  number of entries, the captured, failed and skipped counts are the numbers of entries
  with that status, and the pending count is the number of entries whose status is absent,
  empty or \<^verbatim>\<open>pending\<close>.
\<close>

theorem progress_total:
  "list_all schema_status (the_list m) \<Longrightarrow>
   total_s (getProgress m) =
     captured (getProgress m) + failed (getProgress m) + skipped (getProgress m)
       + pending (getProgress m) \<and>
   total_s (getProgress m) = length (the_list m) \<and>
   captured (getProgress m) = length (filter (\<lambda>s. status s = Some ''captured'') (the_list m)) \<and>
   failed (getProgress m) = length (filter (\<lambda>s. status s = Some ''failed'') (the_list m)) \<and>
   skipped (getProgress m) = length (filter (\<lambda>s. status s = Some ''skipped'') (the_list m)) \<and>
   pending (getProgress m) =
     length (filter (\<lambda>s. status s = None \<or> status s = Some [] \<or> status s = Some ''pending'')
       (the_list m))"
proof -
  assume ok: "list_all schema_status (the_list m)"
  have "total_s (getProgress m) =
     captured (getProgress m) + failed (getProgress m) + skipped (getProgress m)
       + pending (getProgress m)"
    using count_total [OF ok] by (simp add: getProgress_def Let_def)
  moreover have "pending (getProgress m) =
     length (filter (\<lambda>s. status s = None \<or> status s = Some [] \<or> status s = Some ''pending'')
       (the_list m))"
    by (simp add: getProgress_def Let_def is_pending_def [abs_def])
  ultimately show ?thesis
    by (simp add: getProgress_def Let_def count_status_def)
qed

text \<open>C6 on the session in which the entry \<open>a\<close> is failed and the entry \<open>b\<close> skipped.\<close>

theorem progress_total_witness:
  "list_all schema_status (the_list captured_then_failed) \<and>
   total_s (getProgress captured_then_failed) = 2 \<and>
   captured (getProgress captured_then_failed) + failed (getProgress captured_then_failed)
     + skipped (getProgress captured_then_failed) + pending (getProgress captured_then_failed) = 2"
proof -
  have ok: "list_all schema_status (the_list captured_then_failed)"
    by (simp add: the_list_captured_then_failed schema_status_def fresh_def)
  have n: "length (the_list captured_then_failed) = 2"
    by (simp add: the_list_captured_then_failed)
  show ?thesis
    using ok n progress_total [OF ok] by simp
qed

text \<open>
  C6, as stated, fails on a metadata file with a status outside the schema: of the three
  entries with the statuses \<^verbatim>\<open>captured\<close>, \<^verbatim>\<open>capturing\<close> and the empty string, the second is
  counted in the total and in no other count.
\<close>

theorem progress_off_schema_cex:
  "total_s (getProgress off_schema) = 3 \<and>
   captured (getProgress off_schema) + failed (getProgress off_schema)
     + skipped (getProgress off_schema) + pending (getProgress off_schema) = 2"
  by (simp add: getProgress_def Let_def the_list_off_schema count_status_def is_pending_def
      fresh_def)

section \<open>Status updates of one entry\<close>

text \<open>What the three methods assign on an entry that is found.\<close>

lemma mark_sets_fields:
  "task i m = Some s \<Longrightarrow>
   map_option captured_at (task i (snd (markCaptured i p t_cap t_save m))) = Some (Some t_cap) \<and>
   map_option status (task i (snd (markFailed i e t_save m))) = Some (Some ''failed'') \<and>
   map_option error (task i (snd (markFailed i e t_save m))) = Some e \<and>
   map_option captured_at (task i (snd (markFailed i e t_save m))) = Some (captured_at s) \<and>
   map_option status (task i (snd (markSkipped i r t_save m))) = Some (Some ''skipped'') \<and>
   map_option error (task i (snd (markSkipped i r t_save m))) = Some r \<and>
   map_option captured_at (task i (snd (markSkipped i r t_save m))) = Some (captured_at s) \<and>
   updated_at (metadata (snd (markCaptured i p t_cap t_save m))) = Some t_save \<and>
   updated_at (metadata (snd (markFailed i e t_save m))) = Some t_save \<and>
   updated_at (metadata (snd (markSkipped i r t_save m))) = Some t_save"
proof -
  assume s: "task i m = Some s"
  have i: "id_s s = i" using s by (rule task_id)
  show ?thesis
    by (simp add: markCaptured_found [OF s] markFailed_found [OF s] markSkipped_found [OF s]
        task_after_update [OF s] i)
qed

text \<open>
  C3 at a fresh entry. \<^verbatim>\<open>markFailed\<close> on the entry \<open>a\<close> returns, sets the status to \<^verbatim>\<open>failed\<close>
  and the error to the message, and leaves the entry without a time stamp; so does
  \<^verbatim>\<open>markSkipped\<close>. \<^verbatim>\<open>updateMetadata\<close>, which writes the same file, stamps the entry of a failed
  result with the clock reading.
\<close>

theorem markFailed_no_timestamp:
  "fst (markFailed ''a'' (Some ''Unknown error'') ''2025-01-12T02:00:00.001Z'' two_tasks) = Returned \<and>
   map_option status
     (task ''a'' (snd (markFailed ''a'' (Some ''Unknown error'') ''2025-01-12T02:00:00.001Z'' two_tasks)))
     = Some (Some ''failed'') \<and>
   map_option error
     (task ''a'' (snd (markFailed ''a'' (Some ''Unknown error'') ''2025-01-12T02:00:00.001Z'' two_tasks)))
     = Some (Some ''Unknown error'') \<and>
   map_option captured_at
     (task ''a'' (snd (markFailed ''a'' (Some ''Unknown error'') ''2025-01-12T02:00:00.001Z'' two_tasks)))
     = Some None \<and>
   map_option captured_at
     (task ''a'' (snd (markSkipped ''a'' (Some ''auth required'') ''2025-01-12T02:00:00.001Z'' two_tasks)))
     = Some None \<and>
   map_option (\<lambda>md. map (\<lambda>s. (status s, captured_at s)) (list_ss (screenshots md)))
     (updateMetadata (\<lambda>k. ''2025-01-12T02:00:00.001Z'') one_failed (Some (metadata two_tasks)))
     = Some [(Some ''failed'', Some ''2025-01-12T02:00:00.001Z''), (None, None)]"
proof -
  have l: "list_ss (screenshots (metadata two_tasks)) =
     [fresh ''a'' ''Home'' ''https://example.com/'', fresh ''b'' ''Login'' ''https://example.com/login'']"
    using the_list_two_tasks by (simp add: the_list_def)
  have u: "map_option (\<lambda>md. map (\<lambda>s. (status s, captured_at s)) (list_ss (screenshots md)))
     (updateMetadata (\<lambda>k. ''2025-01-12T02:00:00.001Z'') one_failed (Some (metadata two_tasks)))
     = Some [(Some ''failed'', Some ''2025-01-12T02:00:00.001Z''), (None, None)]"
    by (simp add: updateMetadata_def apply_result_def one_failed_def l fresh_def)
  show ?thesis
    using u
    by (simp add: markFailed_def markSkipped_def task_def the_list_two_tasks fresh_def)
qed

text \<open>
  C4. For an identifier that no entry of the session has, \<^verbatim>\<open>markCaptured\<close>, \<^verbatim>\<open>markFailed\<close> and
  \<^verbatim>\<open>markSkipped\<close> each throw the error \<^verbatim>\<open>Screenshot not found\<close> and leave the manager, hence
  every entry, exactly as it was; for an identifier that some entry has, each of them
  returns.
\<close>

theorem mark_unknown_id:
  "(i \<notin> id_s ` set (the_list m) \<longrightarrow>
      markCaptured i p t_cap t_save m = (Threw (not_found i), m) \<and>
      markFailed i e t_save m = (Threw (not_found i), m) \<and>
      markSkipped i r t_save m = (Threw (not_found i), m)) \<and>
   (i \<in> id_s ` set (the_list m) \<longrightarrow>
      fst (markCaptured i p t_cap t_save m) = Returned \<and>
      fst (markFailed i e t_save m) = Returned \<and>
      fst (markSkipped i r t_save m) = Returned)"
proof (cases "find (\<lambda>s. id_s s = i) (the_list m)")
  case None
  then have "i \<notin> id_s ` set (the_list m)" by (simp add: find_id_None)
  with None show ?thesis by (simp add: markCaptured_def markFailed_def markSkipped_def)
next
  case (Some s)
  then have "i \<in> id_s ` set (the_list m)" using find_id_None [of i "the_list m"] by simp
  with Some show ?thesis by (simp add: markCaptured_def markFailed_def markSkipped_def)
qed

text \<open>C4 on the session with the entries \<open>a\<close> and \<open>b\<close>: the identifier \<open>nope\<close> is unknown,
  \<open>b\<close> is known.\<close>

theorem mark_unknown_id_witness:
  "''nope'' \<notin> id_s ` set (the_list two_tasks) \<and>
   markCaptured ''nope'' None ''t1'' ''t2'' two_tasks = (Threw (not_found ''nope''), two_tasks) \<and>
   markFailed ''nope'' (Some ''Unknown error'') ''t2'' two_tasks = (Threw (not_found ''nope''), two_tasks) \<and>
   markSkipped ''nope'' (Some ''auth required'') ''t2'' two_tasks = (Threw (not_found ''nope''), two_tasks) \<and>
   ''b'' \<in> id_s ` set (the_list two_tasks) \<and>
   fst (markCaptured ''b'' None ''t1'' ''t2'' two_tasks) = Returned \<and>
   fst (markFailed ''b'' (Some ''Unknown error'') ''t2'' two_tasks) = Returned \<and>
   fst (markSkipped ''b'' (Some ''auth required'') ''t2'' two_tasks) = Returned"
proof -
  have n: "''nope'' \<notin> id_s ` set (the_list two_tasks)"
    by (simp add: the_list_two_tasks fresh_def)
  have b: "''b'' \<in> id_s ` set (the_list two_tasks)"
    by (simp add: the_list_two_tasks fresh_def)
  show ?thesis
    using n b
      mark_unknown_id [of "''nope''" two_tasks None "''t1''" "''t2''" "Some ''Unknown error''"
        "Some ''auth required''"]
      mark_unknown_id [of "''b''" two_tasks None "''t1''" "''t2''" "Some ''Unknown error''"
        "Some ''auth required''"]
    by simp
qed

lemma markCaptured_twice:
  "snd (markCaptured i p t_cap t_save (snd (markCaptured i p t_cap t_save m))) =
   snd (markCaptured i p t_cap t_save m)"
proof (cases "find (\<lambda>s. id_s s = i) (the_list m)")
  case None
  then show ?thesis by (simp add: markCaptured_def)
next
  case (Some s)
  let ?f = "\<lambda>s. s\<lparr>status := Some ''captured'', captured_at := Some t_cap,
                 file_path := Some (or_else p (outputDir m @ ''/'' @ i @ ''.png'')),
                 error := None\<rparr>"
  let ?m = "save t_save (set_list (update_found (\<lambda>s. id_s s = i) ?f (the_list m)) m)"
  have s: "task i m = Some s" using Some by (simp add: task_def)
  have i: "id_s s = i" using s by (rule task_id)
  have one: "markCaptured i p t_cap t_save m = (Returned, ?m)"
    by (rule markCaptured_found [OF s])
  have s': "task i ?m = Some (?f s)"
    using task_after_update [OF s, of ?f] i by simp
  have two: "markCaptured i p t_cap t_save ?m =
      (Returned, save t_save (set_list (update_found (\<lambda>s. id_s s = i) ?f (the_list ?m)) ?m))"
    using markCaptured_found [OF s', of p t_cap t_save] by simp
  have idem: "update_found (\<lambda>s. id_s s = i) ?f (update_found (\<lambda>s. id_s s = i) ?f (the_list m))
      = update_found (\<lambda>s. id_s s = i) ?f (the_list m)"
    by (rule update_found_idem) simp_all
  show ?thesis
    using one two idem by (simp add: set_list_save)
qed

text \<open>
  C5, as the code has it. For an entry that is found, a second call of \<^verbatim>\<open>markCaptured\<close> with
  the same arguments and the same clock readings returns and leaves the manager exactly as the
  first call left it. A call sets the status to \<^verbatim>\<open>captured\<close>, the capture time to the clock
  reading, removes the error, and sets the file path to the argument when it is a non-empty
  string, and to \<^verbatim>\<open>{outputDir}/{id}.png\<close> when the argument is absent or the empty string.
\<close>

theorem markCaptured_idempotent:
  "task i m = Some s \<Longrightarrow>
   fst (markCaptured i p t_cap t_save (snd (markCaptured i p t_cap t_save m))) = Returned \<and>
   snd (markCaptured i p t_cap t_save (snd (markCaptured i p t_cap t_save m))) =
     snd (markCaptured i p t_cap t_save m) \<and>
   task i (snd (markCaptured i p t_cap t_save m)) =
     Some (s\<lparr>status := Some ''captured'',
             captured_at := Some t_cap,
             file_path := Some (if p = None \<or> p = Some [] then outputDir m @ ''/'' @ i @ ''.png''
                                else the p),
             error := None\<rparr>)"
proof -
  assume s: "task i m = Some s"
  have i: "id_s s = i" using s by (rule task_id)
  let ?f = "\<lambda>s. s\<lparr>status := Some ''captured'', captured_at := Some t_cap,
                 file_path := Some (or_else p (outputDir m @ ''/'' @ i @ ''.png'')),
                 error := None\<rparr>"
  have s': "task i (snd (markCaptured i p t_cap t_save m)) = Some (?f s)"
    using task_after_update [OF s, of ?f] i by (simp add: markCaptured_found [OF s])
  have p: "or_else p (outputDir m @ ''/'' @ i @ ''.png'') =
      (if p = None \<or> p = Some [] then outputDir m @ ''/'' @ i @ ''.png'' else the p)"
    by (cases p) auto
  have r: "fst (markCaptured i p t_cap t_save (snd (markCaptured i p t_cap t_save m))) = Returned"
    using markCaptured_found [OF s', of p t_cap t_save] by simp
  show ?thesis
    using s' r p by (simp add: markCaptured_twice)
qed

text \<open>C5 on the entry \<open>a\<close>, with a path and without one.\<close>

theorem markCaptured_idempotent_witness:
  "task ''a'' two_tasks = Some (fresh ''a'' ''Home'' ''https://example.com/'') \<and>
   snd (markCaptured ''a'' (Some ''out/home.png'') ''t1'' ''t2''
          (snd (markCaptured ''a'' (Some ''out/home.png'') ''t1'' ''t2'' two_tasks))) =
     snd (markCaptured ''a'' (Some ''out/home.png'') ''t1'' ''t2'' two_tasks) \<and>
   map_option file_path
     (task ''a'' (snd (markCaptured ''a'' (Some ''out/home.png'') ''t1'' ''t2'' two_tasks))) =
     Some (Some ''out/home.png'') \<and>
   map_option file_path (task ''a'' (snd (markCaptured ''a'' None ''t1'' ''t2'' two_tasks))) =
     Some (Some ''screenshots/a.png'')"
  using markCaptured_idempotent [OF task_two_tasks_a, of "Some ''out/home.png''" "''t1''" "''t2''"]
    markCaptured_idempotent [OF task_two_tasks_a, of None "''t1''" "''t2''"]
  by (simp add: task_two_tasks_a outputDir_two_tasks)

text \<open>
  C5, as stated, fails for the empty string: it is a path argument that is present, and the
  file path of the entry becomes the default path, not the argument.
\<close>

theorem markCaptured_empty_path_cex:
  "map_option file_path
     (task ''a'' (snd (markCaptured ''a'' (Some []) ''t1'' ''t2'' two_tasks))) =
     Some (Some ''screenshots/a.png'') \<and>
   map_option file_path
     (task ''a'' (snd (markCaptured ''a'' (Some []) ''t1'' ''t2'' two_tasks))) \<noteq> Some (Some [])"
  by (simp add: markCaptured_def task_def the_list_two_tasks fresh_def outputDir_two_tasks)

text \<open>
  C10. When the list of entries is \<open>pre @ s # post\<close>, where \<open>s\<close> is the first entry with the
  identifier, \<^verbatim>\<open>markFailed\<close> and \<^verbatim>\<open>markSkipped\<close> return a manager that differs from the given
  one in the update time of the metadata and in the status and error of \<open>s\<close> only: the entries
  before and after \<open>s\<close>, the other fields of \<open>s\<close> (among them a file path and a capture time
  left by an earlier \<^verbatim>\<open>markCaptured\<close>) and all other fields of the manager are as before.
\<close>

theorem mark_failed_frame:
  "the_list m = pre @ s # post \<Longrightarrow> i \<notin> id_s ` set pre \<Longrightarrow> id_s s = i \<Longrightarrow>
   markFailed i e t_save m =
     (Returned,
      m\<lparr>metadata := (metadata m)
          \<lparr>updated_at := Some t_save,
           screenshots := (screenshots (metadata m))
             \<lparr>list_ss := pre @ s\<lparr>status := Some ''failed'', error := e\<rparr> # post\<rparr>\<rparr>\<rparr>) \<and>
   markSkipped i r t_save m =
     (Returned,
      m\<lparr>metadata := (metadata m)
          \<lparr>updated_at := Some t_save,
           screenshots := (screenshots (metadata m))
             \<lparr>list_ss := pre @ s\<lparr>status := Some ''skipped'', error := r\<rparr> # post\<rparr>\<rparr>\<rparr>) \<and>
   file_path (s\<lparr>status := Some ''failed'', error := e\<rparr>) = file_path s \<and>
   captured_at (s\<lparr>status := Some ''failed'', error := e\<rparr>) = captured_at s \<and>
   file_path (s\<lparr>status := Some ''skipped'', error := r\<rparr>) = file_path s \<and>
   captured_at (s\<lparr>status := Some ''skipped'', error := r\<rparr>) = captured_at s"
proof -
  assume l: "the_list m = pre @ s # post" and pre: "i \<notin> id_s ` set pre" and i: "id_s s = i"
  have np: "\<forall>x\<in>set pre. \<not> id_s x = i" using pre by auto
  have f: "find (\<lambda>s. id_s s = i) (the_list m) = Some s"
    unfolding l using np i by (induction pre) auto
  have u: "update_found (\<lambda>s. id_s s = i) g (the_list m) = pre @ g s # post" for g
    unfolding l by (rule update_found_split [OF np i])
  show ?thesis
    by (simp add: markFailed_def markSkipped_def f u save_def set_list_def)
qed

text \<open>C10 on the session in which the entry \<open>b\<close> has been captured: after \<^verbatim>\<open>markFailed\<close> the
  entry still has the file path and the capture time, and the entry \<open>a\<close> is as before.\<close>

theorem mark_failed_frame_witness:
  "the_list one_captured =
     [fresh ''a'' ''Home'' ''https://example.com/''] @
     (fresh ''b'' ''Login'' ''https://example.com/login'')
       \<lparr>status := Some ''captured'', captured_at := Some ''2025-01-12T02:00:00.000Z'',
        file_path := Some ''screenshots/b.png'', error := None\<rparr> # [] \<and>
   ''b'' \<notin> id_s ` set [fresh ''a'' ''Home'' ''https://example.com/''] \<and>
   map_option file_path
     (task ''b'' (snd (markFailed ''b'' (Some ''Unknown error'') ''2025-01-12T02:05:00.000Z'' one_captured)))
     = Some (Some ''screenshots/b.png'') \<and>
   map_option captured_at
     (task ''b'' (snd (markFailed ''b'' (Some ''Unknown error'') ''2025-01-12T02:05:00.000Z'' one_captured)))
     = Some (Some ''2025-01-12T02:00:00.000Z'') \<and>
   map_option status
     (task ''b'' (snd (markSkipped ''b'' (Some ''auth required'') ''2025-01-12T02:05:00.000Z'' one_captured)))
     = Some (Some ''skipped'') \<and>
   task ''a'' (snd (markFailed ''b'' (Some ''Unknown error'') ''2025-01-12T02:05:00.000Z'' one_captured))
     = task ''a'' one_captured"
proof -
  have n: "''b'' \<notin> id_s ` set [fresh ''a'' ''Home'' ''https://example.com/'']"
    by (simp add: fresh_def)
  have i: "id_s ((fresh ''b'' ''Login'' ''https://example.com/login'')
       \<lparr>status := Some ''captured'', captured_at := Some ''2025-01-12T02:00:00.000Z'',
        file_path := Some ''screenshots/b.png'', error := None\<rparr>) = ''b''"
    by (simp add: fresh_def)
  show ?thesis
    using n mark_failed_frame [OF the_list_one_captured n i,
        of "Some ''Unknown error''" "''2025-01-12T02:05:00.000Z''" "Some ''auth required''"]
    by (simp add: the_list_one_captured task_def the_list_frame fresh_def)
qed

section \<open>The invariant of an entry\<close>



text \<open>After \<^verbatim>\<open>markFailed\<close> without a message the entry is failed and has no error.\<close>

lemma markFailed_without_message:
  "fst (markFailed ''a'' None ''2025-01-12T02:05:00.000Z'' two_tasks) = Returned \<and>
   map_option (\<lambda>s. (status s, error s))
     (task ''a'' (snd (markFailed ''a'' None ''2025-01-12T02:05:00.000Z'' two_tasks)))
     = Some (Some ''failed'', None)"
  by (simp add: markFailed_def task_def the_list_two_tasks fresh_def)




section \<open>The report\<close>

lemma report_lines_split:
  "report_lines inherited now m =
     [''# Screenshot Capture Report'', '''', ''Generated: '' @ now]
     @ drop 3 (report_lines inherited t' m)"
  by (simp add: report_lines_def Let_def)

lemma drop3_nonempty: "drop 3 (report_lines inherited t' m) \<noteq> []"
  by (simp add: report_lines_def Let_def)

lemma report_shape:
  "generateReport inherited now m =
     ''# Screenshot Capture Report'' @ [CHR 0x0A, CHR 0x0A] @ ''Generated: '' @ now @ [CHR 0x0A]
       @ join_lines (drop 3 (report_lines inherited t' m))"
proof -
  have "generateReport inherited now m =
      join_lines ([''# Screenshot Capture Report'', '''', ''Generated: '' @ now]
                  @ drop 3 (report_lines inherited t' m))"
    unfolding generateReport_def by (subst report_lines_split [of inherited now m t']) (rule refl)
  then show ?thesis
    using drop3_nonempty [of inherited t' m] by (simp add: join_lines_Cons)
qed

lemma report_tail:
  "drop 3 (report_lines inherited t' m) =
     [''Metadata: '' @ metadataPath m,
      '''',
      ''## Summary'',
      '''',
      ''- Total: '' @ show_nat (length (the_list m)),
      ''- Captured: '' @
         show_nat (length (filter (\<lambda>s. status s = Some ''captured'') (the_list m))),
      ''- Failed: '' @ show_nat (length (filter (\<lambda>s. status s = Some ''failed'') (the_list m))),
      ''- Skipped: '' @
         show_nat (length (filter (\<lambda>s. status s = Some ''skipped'') (the_list m))),
      ''- Pending: '' @ show_nat (length (filter is_pending (the_list m))),
      '''',
      ''## Details'',
      '''']
     @ concat (map (\<lambda>s.
         [''### '' @ statusIcon inherited (or_else (status s) ''pending'') @ '' '' @ id_s s,
          ''- Description: '' @ description s,
          ''- Page: '' @ page s,
          ''- Status: '' @ or_else (status s) ''pending'']
         @ (if truthy (file_path s) then [''- File: '' @ the (file_path s)] else [])
         @ (if truthy (error s) then [''- Error: '' @ the (error s)] else [])
         @ ['''']) (the_list m))"
proof -
  have b: "report_block inherited = (\<lambda>s.
         [''### '' @ statusIcon inherited (or_else (status s) ''pending'') @ '' '' @ id_s s,
          ''- Description: '' @ description s,
          ''- Page: '' @ page s,
          ''- Status: '' @ or_else (status s) ''pending'']
         @ (if truthy (file_path s) then [''- File: '' @ the (file_path s)] else [])
         @ (if truthy (error s) then [''- Error: '' @ the (error s)] else [])
         @ [''''])"
    by (rule ext) (simp add: report_block_def Let_def)
  show ?thesis
    unfolding b [symmetric]
    by (simp add: report_lines_def Let_def getProgress_def count_status_def)
qed

text \<open>
  C7, as the code has it. \<^verbatim>\<open>generateReport\<close> changes nothing (it returns a string only), but
  it reads the clock. The string is the title, an empty line, the line \<^verbatim>\<open>Generated:\<close> with the
  clock reading, and then lines in which the clock does not occur: the line \<^verbatim>\<open>Metadata:\<close>
  with the metadata path of the manager, the summary with the five counts over the entries
  of the session, and for every entry, in the order of the list, its block: icon and
  identifier, description, page, status, the file path and the error when they are present
  and not empty, and an empty line. Two reports of one state differ in the line
  \<^verbatim>\<open>Generated:\<close> at most.
\<close>

theorem report_reads_clock:
  "generateReport inherited now m =
     ''# Screenshot Capture Report'' @ [CHR 0x0A, CHR 0x0A] @ ''Generated: '' @ now @ [CHR 0x0A]
       @ join_lines (drop 3 (report_lines inherited t' m)) \<and>
   drop 3 (report_lines inherited t' m) =
     [''Metadata: '' @ metadataPath m,
      '''',
      ''## Summary'',
      '''',
      ''- Total: '' @ show_nat (length (the_list m)),
      ''- Captured: '' @
         show_nat (length (filter (\<lambda>s. status s = Some ''captured'') (the_list m))),
      ''- Failed: '' @ show_nat (length (filter (\<lambda>s. status s = Some ''failed'') (the_list m))),
      ''- Skipped: '' @
         show_nat (length (filter (\<lambda>s. status s = Some ''skipped'') (the_list m))),
      ''- Pending: '' @ show_nat (length (filter is_pending (the_list m))),
      '''',
      ''## Details'',
      '''']
     @ concat (map (\<lambda>s.
         [''### '' @ statusIcon inherited (or_else (status s) ''pending'') @ '' '' @ id_s s,
          ''- Description: '' @ description s,
          ''- Page: '' @ page s,
          ''- Status: '' @ or_else (status s) ''pending'']
         @ (if truthy (file_path s) then [''- File: '' @ the (file_path s)] else [])
         @ (if truthy (error s) then [''- Error: '' @ the (error s)] else [])
         @ ['''']) (the_list m))"
  using report_shape [of inherited now m t'] report_tail [of inherited t' m] by (rule conjI)

text \<open>
  C7, as stated, fails: two reports of the same session differ when the clock has advanced by
  a second between them.
\<close>

theorem report_differs_cex:
  "generateReport undefined_icon ''2025-01-12T02:00:00.000Z'' two_tasks \<noteq>
   generateReport undefined_icon ''2025-01-12T02:00:01.000Z'' two_tasks"
  using report_shape [of undefined_icon "''2025-01-12T02:00:00.000Z''" two_tasks "''''"]
    report_shape [of undefined_icon "''2025-01-12T02:00:01.000Z''" two_tasks "''''"]
  by simp

section \<open>The two rollups\<close>

text \<open>The two rollup formulas on the same numbers: for a batch with one result for each
  definition, the status that \<^verbatim>\<open>updateMetadata\<close> writes is the value of the formula of
  \<^verbatim>\<open>finishCapture\<close> at the number of captured results and the number of results, if and only
  if something was captured.\<close>

lemma rollups_agree_iff:
  "length rs = length SCREENSHOTS \<Longrightarrow>
   (batch_rollup rs = rollup (length (filter (\<lambda>r. status_r r = ''captured'') rs)) (length rs)) =
   (0 < length (filter (\<lambda>r. status_r r = ''captured'') rs))"
  by (auto simp: batch_rollup_def rollup_def Let_def length_SCREENSHOTS)

text \<open>
  C8 at the batch in which all seven captures fail. \<^verbatim>\<open>updateMetadata\<close> marks the seven entries
  of the metadata file as failed and writes the session status \<^verbatim>\<open>partial\<close>; \<^verbatim>\<open>finishCapture\<close> on
  the file so written computes the session status \<^verbatim>\<open>failed\<close> from the same entries.
\<close>

theorem rollups_disagree:
  "map_option (\<lambda>md. status_ss (screenshots md))
     (updateMetadata clock all_failed (Some defined_session)) = Some (Some SessPartial) \<and>
   map_option (\<lambda>md. map status (list_ss (screenshots md)))
     (updateMetadata clock all_failed (Some defined_session)) =
     Some (replicate 7 (Some ''failed'')) \<and>
   map_option (\<lambda>md. status_ss (screenshots (metadata (finishCapture t_cap t_save (load path md)))))
     (updateMetadata clock all_failed (Some defined_session)) = Some (Some SessFailed)"
  by (simp add: updateMetadata_def apply_result_def all_failed_def defined_session_def
      session_of_def SCREENSHOTS_def fresh_def batch_rollup_def finishCapture_def rollup_def
      count_status_def the_list_def load_def save_def Let_def numeral_eq_Suc)

end
